theory Spec2Isabelle
  imports Main "HOL-Library.Sublist" "HOL-Library.Word"
begin

section \<open>Strings and the regular expressions of main.py\<close>

text \<open>
  A Python \<open>str\<close> is a sequence of code points. A \<open>char\<close> of this theory is one code
  point below 256, so the model covers the strings over Latin-1; on these, Python's
  \<open>str.isspace\<close>, the white space of \<open>str.strip()\<close> and the class \<open>\s\<close> of \<open>re\<close> are the
  same twelve characters, and under the flag \<open>(?i)\<close> the letters of \<open>script\<close>, \<open>style\<close> and
  the class \<open>[a-z0-9]\<close> match the ASCII letters of either case and the digits only.
\<close>

definition is_space :: "char \<Rightarrow> bool" where
  "is_space c \<longleftrightarrow>
     c \<in> set [CHR 0x09, CHR 0x0A, CHR 0x0B, CHR 0x0C, CHR 0x0D, CHR 0x1C, CHR 0x1D,
               CHR 0x1E, CHR 0x1F, CHR 0x20, CHR 0x85, CHR 0xA0]"

definition lstrip :: "string \<Rightarrow> string" where
  "lstrip s = dropWhile is_space s"

definition rstrip :: "string \<Rightarrow> string" where
  "rstrip s = rev (dropWhile is_space (rev s))"

text \<open>\<open>s.strip()\<close>\<close>

definition strip :: "string \<Rightarrow> string" where
  "strip s = rstrip (lstrip s)"

text \<open>\<open>s.rstrip("/")\<close>\<close>

definition rstrip_slash :: "string \<Rightarrow> string" where
  "rstrip_slash s = rev (dropWhile (\<lambda>c. c = CHR ''/'') (rev s))"

text \<open>\<open>s.startswith(p)\<close>\<close>

definition startswith :: "string \<Rightarrow> string \<Rightarrow> bool" where
  "startswith s p \<longleftrightarrow> take (length p) s = p"

text \<open>\<open>sep.join(xs)\<close>\<close>

fun join :: "string \<Rightarrow> string list \<Rightarrow> string" where
  "join sep [] = []"
| "join sep [x] = x"
| "join sep (x # y # ys) = x @ sep @ join sep (y # ys)"

definition is_upper :: "char \<Rightarrow> bool" where
  "is_upper c \<longleftrightarrow> c \<in> set ''ABCDEFGHIJKLMNOPQRSTUVWXYZ''"

text \<open>Lower case of an ASCII letter; every other character is left as it is.\<close>

definition ascii_lower :: "char \<Rightarrow> char" where
  "ascii_lower c = (if is_upper c then char_of (of_char c + (32::nat)) else c)"

text \<open>The class \<open>[a-z0-9]\<close> under \<open>(?i)\<close>.\<close>

definition is_alnum :: "char \<Rightarrow> bool" where
  "is_alnum c \<longleftrightarrow>
     c \<in> set ''abcdefghijklmnopqrstuvwxyzABCDEFGHIJKLMNOPQRSTUVWXYZ0123456789''"

text \<open>
  A literal \<open>p\<close> (written in lower case) matches at the head of \<open>s\<close> under \<open>(?i)\<close>.
\<close>

definition ci_prefix :: "string \<Rightarrow> string \<Rightarrow> bool" where
  "ci_prefix p s \<longleftrightarrow> map ascii_lower (take (length p) s) = p"

text \<open>
  \<open>[^>]*>\<close> at the head of \<open>s\<close>: the class cannot cross a \<open>>\<close>, so the only match ends
  at the first \<open>>\<close>. The result is the number of characters matched.
\<close>

fun find_gt :: "string \<Rightarrow> nat option" where
  "find_gt [] = None"
| "find_gt (c # cs) = (if c = CHR ''>'' then Some 1 else map_option Suc (find_gt cs))"

subsection \<open>\<open>(?is)<(script|style)[^>]*>.*?</\1\s*>\<close>\<close>

text \<open>
  \<open></\1\s*>\<close> at the head of \<open>s\<close>, where group 1 matched \<open>name\<close> ignoring case (the
  back reference compares ignoring case too). \<open>\s*\<close> is greedy and what follows it is
  not white space, so it takes the whole run of white space.
\<close>

definition closes :: "string \<Rightarrow> string \<Rightarrow> nat option" where
  "closes name s =
     (if ci_prefix (''</'' @ name) s then
        (let r = drop (2 + length name) s; k = length (takeWhile is_space r) in
         case drop k r of
           [] \<Rightarrow> None
         | c # _ \<Rightarrow> if c = CHR ''>'' then Some (2 + length name + k + 1) else None)
      else None)"

text \<open>\<open>.*?</\1\s*>\<close>: the lazy star stops at the first position where the end tag matches.\<close>

fun lazy_close :: "string \<Rightarrow> string \<Rightarrow> nat option" where
  "lazy_close name [] = None"
| "lazy_close name (c # cs) =
     (case closes name (c # cs) of
        Some n \<Rightarrow> Some n
      | None \<Rightarrow> map_option Suc (lazy_close name cs))"

text \<open>\<open>name[^>]*>.*?</\1\s*>\<close> at the head of \<open>cs\<close>, the text after \<open><\<close>.\<close>

definition element :: "string \<Rightarrow> string \<Rightarrow> nat option" where
  "element name cs =
     (case find_gt (drop (length name) cs) of
        None \<Rightarrow> None
      | Some g \<Rightarrow>
          (case lazy_close name (drop (length name + g) cs) of
             None \<Rightarrow> None
           | Some l \<Rightarrow> Some (length name + g + l)))"

text \<open>
  The length of the match of the whole pattern at the head of \<open>s\<close>. The two alternatives
  of group 1 differ in their second letter, so at most one of them applies.
\<close>

definition match_script_style :: "string \<Rightarrow> nat option" where
  "match_script_style s =
     (case s of
        [] \<Rightarrow> None
      | c # cs \<Rightarrow>
          if c \<noteq> CHR ''<'' then None
          else if ci_prefix ''script'' cs then map_option Suc (element ''script'' cs)
          else if ci_prefix ''style'' cs then map_option Suc (element ''style'' cs)
          else None)"

lemma match_script_style_pos: "match_script_style s = Some n \<Longrightarrow> 0 < n"
  by (auto simp: match_script_style_def split: list.splits if_splits)

text \<open>
  \<open>re.sub(r"(?is)<(script|style)[^>]*>.*?</\1\s*>", "", s)\<close>: the matches are found from
  left to right, each search starting where the last match ended.
\<close>

function sub_script_style :: "string \<Rightarrow> string" where
  "sub_script_style [] = []"
| "sub_script_style (c # cs) =
     (case match_script_style (c # cs) of
        None \<Rightarrow> c # sub_script_style cs
      | Some n \<Rightarrow> sub_script_style (drop n (c # cs)))"
  by pat_completeness auto
termination
  by (relation "measure length") (auto dest: match_script_style_pos)

subsection \<open>\<open>(?is)</?([a-z0-9]+)(\s+[^>]*)?>\<close>\<close>

text \<open>
  The match at the head of \<open>s\<close>: its length and group 1. \<open>/?\<close> takes a \<open>/\<close> that is
  there (without it the name could not start); \<open>[a-z0-9]+\<close> takes the whole run of
  letters and digits (a shorter name would be followed by a letter or digit, which is
  neither white space nor \<open>>\<close>); then either \<open>>\<close> follows at once, or white space
  and everything up to the first \<open>>\<close>.
\<close>

definition match_tag :: "string \<Rightarrow> (nat \<times> string) option" where
  "match_tag s =
     (case s of
        [] \<Rightarrow> None
      | c # cs \<Rightarrow>
          if c \<noteq> CHR ''<'' then None
          else
            (let sl = (if take 1 cs = ''/'' then 1 else 0);
                 body = drop sl cs;
                 name = takeWhile is_alnum body;
                 r = dropWhile is_alnum body
             in if name = [] then None
                else
                  (case r of
                     [] \<Rightarrow> None
                   | e # es \<Rightarrow>
                       if e = CHR ''>'' then Some (1 + sl + length name + 1, name)
                       else if is_space e then
                         (case find_gt es of
                            None \<Rightarrow> None
                          | Some g \<Rightarrow> Some (1 + sl + length name + 1 + g, name))
                       else None)))"

lemma match_tag_pos: "match_tag s = Some (n, name) \<Longrightarrow> 0 < n"
  by (auto simp: match_tag_def Let_def split: list.splits if_splits option.splits)

definition allowed :: "string list" where
  "allowed = [''p'', ''h2'', ''ul'', ''li'', ''strong'', ''code'', ''a'']"

text \<open>\<open>_strip_disallowed\<close>: the replacement for a match \<open>m\<close> with group 1 \<open>name\<close>.\<close>

definition strip_disallowed :: "string \<Rightarrow> string \<Rightarrow> string" where
  "strip_disallowed m name = (if map ascii_lower name \<in> set allowed then m else [])"

text \<open>\<open>re.sub(r"(?is)</?([a-z0-9]+)(\s+[^>]*)?>", _strip_disallowed, s)\<close>\<close>

function sub_tags :: "string \<Rightarrow> string" where
  "sub_tags [] = []"
| "sub_tags (c # cs) =
     (case match_tag (c # cs) of
        None \<Rightarrow> c # sub_tags cs
      | Some (n, name) \<Rightarrow>
          strip_disallowed (take n (c # cs)) name @ sub_tags (drop n (c # cs)))"
  by pat_completeness auto
termination
  by (relation "measure length") (auto dest: match_tag_pos)

text \<open>
  The two passes of \<open>generate_body_html\<close>: the first \<open>re.sub\<close> with its \<open>.strip()\<close>, then
  the second.
\<close>

definition sanitize :: "string \<Rightarrow> string" where
  "sanitize out = sub_tags (strip (sub_script_style out))"

subsection \<open>\<open>strip_tags\<close> and \<open>normalize_ws\<close>\<close>

text \<open>\<open>(?is)<[^>]+>\<close> at the head of \<open>s\<close>: the length of the match.\<close>

definition match_markup :: "string \<Rightarrow> nat option" where
  "match_markup s =
     (case s of
        c # d # ds \<Rightarrow>
          if c = CHR ''<'' \<and> d \<noteq> CHR ''>'' then map_option (\<lambda>g. 2 + g) (find_gt ds)
          else None
      | _ \<Rightarrow> None)"

lemma match_markup_pos: "match_markup s = Some n \<Longrightarrow> 0 < n"
  by (auto simp: match_markup_def split: list.splits if_splits)

text \<open>\<open>re.sub(r"(?is)<[^>]+>", " ", s)\<close>\<close>

function sub_markup :: "string \<Rightarrow> string" where
  "sub_markup [] = []"
| "sub_markup (c # cs) =
     (case match_markup (c # cs) of
        None \<Rightarrow> c # sub_markup cs
      | Some n \<Rightarrow> CHR '' '' # sub_markup (drop n (c # cs)))"
  by pat_completeness auto
termination
  by (relation "measure length") (auto dest: match_markup_pos)

text \<open>\<open>re.sub(r"\s+", " ", s)\<close>\<close>

function collapse_ws :: "string \<Rightarrow> string" where
  "collapse_ws [] = []"
| "collapse_ws (c # cs) =
     (if is_space c then CHR '' '' # collapse_ws (dropWhile is_space cs)
      else c # collapse_ws cs)"
  by pat_completeness auto
termination
  by (relation "measure length") (auto simp: length_dropWhile_le less_Suc_eq_le)

definition normalize_ws :: "string \<Rightarrow> string" where
  "normalize_ws s = collapse_ws (strip s)"

definition strip_tags :: "string \<Rightarrow> string" where
  "strip_tags html = normalize_ws (sub_markup html)"

section \<open>Values, errors and the outside world\<close>

text \<open>
  What \<open>json.loads\<close> returns. A Python float is its 64 bits; an object is the list of its
  members, looked up from the left.
\<close>

type_synonym pyfloat = "64 word"

datatype json =
    JNull
  | JBool bool
  | JInt int
  | JFloat pyfloat
  | JStr string
  | JArr "json list"
  | JObj "(string \<times> json) list"

text \<open>Python's truth value of such a value (\<open>0.0\<close> and \<open>-0.0\<close> are false).\<close>

fun truthy :: "json \<Rightarrow> bool" where
  "truthy JNull = False"
| "truthy (JBool b) = b"
| "truthy (JInt i) = (i \<noteq> 0)"
| "truthy (JFloat x) = (x \<noteq> 0 \<and> x \<noteq> 0x8000000000000000)"
| "truthy (JStr s) = (s \<noteq> [])"
| "truthy (JArr xs) = (xs \<noteq> [])"
| "truthy (JObj kvs) = (kvs \<noteq> [])"

text \<open>\<open>x or y\<close>\<close>

definition py_or :: "json \<Rightarrow> json \<Rightarrow> json" where
  "py_or x y = (if truthy x then x else y)"

text \<open>
  How a run ends other than by returning: \<open>die(msg, code)\<close> (the message goes to the
  standard error, then \<open>SystemExit(code)\<close>), a bare \<open>SystemExit(code)\<close>, or an exception
  that nothing catches, named by its class; the interpreter then exits with status 1.
\<close>

datatype error = Die string nat | SystemExit nat | Uncaught string

fun exit_status :: "error \<Rightarrow> nat" where
  "exit_status (Die msg code) = code"
| "exit_status (SystemExit code) = code"
| "exit_status (Uncaught exn) = 1"

text \<open>\<open>d.get(key)\<close> for the members \<open>kvs\<close> of a dict \<open>d\<close>: a missing key gives \<open>None\<close>.\<close>

definition member :: "(string \<times> json) list \<Rightarrow> string \<Rightarrow> json" where
  "member kvs k = (case map_of kvs k of None \<Rightarrow> JNull | Some v \<Rightarrow> v)"

text \<open>\<open>x.get(key)\<close>: only a dict has the method.\<close>

definition py_get :: "json \<Rightarrow> string \<Rightarrow> error + json" where
  "py_get x k =
     (case x of
        JObj kvs \<Rightarrow> Inr (member kvs k)
      | _ \<Rightarrow> Inl (Uncaught ''AttributeError''))"

text \<open>\<open>x[key]\<close> and \<open>x[0]\<close>, with \<open>None\<close> where Python raises (all of it is caught).\<close>

definition py_item :: "json \<Rightarrow> string \<Rightarrow> json option" where
  "py_item x k = (case x of JObj kvs \<Rightarrow> map_of kvs k | _ \<Rightarrow> None)"

definition py_first :: "json \<Rightarrow> json option" where
  "py_first x =
     (case x of
        JArr (v # _) \<Rightarrow> Some v
      | JStr (c # _) \<Rightarrow> Some (JStr [c])
      | _ \<Rightarrow> None)"

text \<open>One entry of the parsed feed: what \<open>e.get(key)\<close> gives for the keys the code reads,
  and the time stamp of \<open>published_parsed\<close> (\<open>None\<close> when it is absent or its conversion
  raises).\<close>

record entry =
  entry_title :: "string option"
  entry_link :: "string option"
  entry_summary :: "string option"
  entry_description :: "string option"
  entry_published :: "string option"
  entry_updated :: "string option"
  published_parsed :: "int option"

text \<open>The values interpolated into the fixed prompt, and the parameters of the call.\<close>

record chat_request =
  req_api_key :: string
  req_model :: string
  req_temperature :: pyfloat
  req_max_tokens :: int
  req_title :: string
  req_link :: string
  req_summary :: string

text \<open>The variables given to the two templates.\<close>

record post_obj =
  p_slug :: string
  p_title :: string
  p_source :: string
  p_url :: string
  p_published :: int
  p_summary :: string

record index_ctx =
  ix_site_title :: string
  ix_site_description :: string
  ix_base_url :: string
  ix_generated_at :: int
  ix_posts :: "post_obj list"

record post_ctx =
  pc_site_title :: string
  pc_base_url :: string
  pc_post :: post_obj
  pc_body_html :: string
  pc_rss_url :: string
  pc_generated_utc :: string
  pc_contact_email :: string

text \<open>
  The collaborators outside the repository are parameters of the model: the builtins
  \<open>str\<close>, \<open>float\<close> and \<open>int\<close> where their result is not obvious (\<open>Inl\<close> names the exception),
  \<open>json\<close>, \<open>os.getenv\<close>, \<open>requests\<close> (\<open>Inl\<close> an exception, \<open>Inr\<close> the status and the text),
  \<open>feedparser\<close>, \<open>slugify\<close>, \<open>jinja2\<close> (compiling and rendering a template source) and the
  clock, of which the model takes one reading.
\<close>

record env =
  str_other :: "json \<Rightarrow> string"
  float_other :: "json \<Rightarrow> string + pyfloat"
  int_other :: "json \<Rightarrow> string + int"
  json_loads :: "string \<Rightarrow> json option"
  json_dumps :: "json \<Rightarrow> string"
  getenv_api_key :: "string option"
  http_get :: "string \<Rightarrow> string + (nat \<times> string)"
  http_post :: "chat_request \<Rightarrow> string + (nat \<times> string)"
  feedparser_parse :: "string \<Rightarrow> entry list"
  slugify :: "string \<Rightarrow> string"
  render_index :: "string \<Rightarrow> index_ctx \<Rightarrow> string + string"
  render_post :: "string \<Rightarrow> post_ctx \<Rightarrow> string + string"
  now :: int
  now_iso :: string

definition py_str :: "env \<Rightarrow> json \<Rightarrow> string" where
  "py_str e v = (case v of JStr s \<Rightarrow> s | _ \<Rightarrow> str_other e v)"

definition py_float :: "env \<Rightarrow> json \<Rightarrow> error + pyfloat" where
  "py_float e v =
     (case v of
        JFloat x \<Rightarrow> Inr x
      | _ \<Rightarrow> (case float_other e v of Inl exn \<Rightarrow> Inl (Uncaught exn) | Inr x \<Rightarrow> Inr x))"

definition py_int :: "env \<Rightarrow> json \<Rightarrow> error + int" where
  "py_int e v =
     (case v of
        JInt i \<Rightarrow> Inr i
      | JBool b \<Rightarrow> Inr (if b then 1 else 0)
      | _ \<Rightarrow> (case int_other e v of Inl exn \<Rightarrow> Inl (Uncaught exn) | Inr i \<Rightarrow> Inr i))"

text \<open>
  The file system under \<open>ROOT\<close> (paths are written relative to it), and what the run
  did: its HTTP calls, the files it read and wrote, and what it printed.
\<close>

datatype fcontent = Text string | Unreadable

datatype event =
    HttpGet string
  | HttpPost string
  | FileRead string
  | FileWrite string string
  | Stdout string

record world =
  files :: "string \<rightharpoonup> fcontent"
  dirs :: "string set"
  trace :: "event list"

type_synonym 'a io = "world \<Rightarrow> (error + 'a) \<times> world"

definition ret :: "'a \<Rightarrow> 'a io" where
  "ret x = (\<lambda>w. (Inr x, w))"

definition raise :: "error \<Rightarrow> 'a io" where
  "raise e = (\<lambda>w. (Inl e, w))"

text \<open>Sequencing: an error ends the run of the statements that follow.\<close>

definition seq :: "'a io \<Rightarrow> ('a \<Rightarrow> 'b io) \<Rightarrow> 'b io" where
  "seq m f = (\<lambda>w. case m w of (Inl e, w') \<Rightarrow> (Inl e, w') | (Inr x, w') \<Rightarrow> f x w')"

definition lift :: "error + 'a \<Rightarrow> 'a io" where
  "lift r = (\<lambda>w. (r, w))"

definition bindE :: "error + 'a \<Rightarrow> ('a \<Rightarrow> error + 'b) \<Rightarrow> error + 'b" where
  "bindE r f = (case r of Inl e \<Rightarrow> Inl e | Inr x \<Rightarrow> f x)"

definition emit :: "event \<Rightarrow> unit io" where
  "emit ev = (\<lambda>w. (Inr (), w\<lparr>trace := trace w @ [ev]\<rparr>))"

text \<open>\<open>die(msg, code)\<close>\<close>

definition die :: "string \<Rightarrow> nat \<Rightarrow> 'a io" where
  "die msg code = raise (Die msg code)"

text \<open>\<open>path.exists()\<close>\<close>

definition exists :: "string \<Rightarrow> world \<Rightarrow> bool" where
  "exists p w \<longleftrightarrow> files w p \<noteq> None \<or> p \<in> dirs w"

text \<open>\<open>path.read_text(encoding="utf-8")\<close>\<close>

definition read_text :: "string \<Rightarrow> string io" where
  "read_text p =
     seq (emit (FileRead p)) (\<lambda>_ w.
       case files w p of
         None \<Rightarrow> (Inl (Uncaught ''FileNotFoundError''), w)
       | Some Unreadable \<Rightarrow> (Inl (Uncaught ''OSError''), w)
       | Some (Text s) \<Rightarrow> (Inr s, w))"

text \<open>\<open>read_json\<close>\<close>

definition read_json :: "env \<Rightarrow> string \<Rightarrow> json io" where
  "read_json e p =
     seq (read_text p) (\<lambda>s.
       case json_loads e s of
         None \<Rightarrow> raise (Uncaught ''JSONDecodeError'')
       | Some j \<Rightarrow> ret j)"

definition parent_dir :: "string \<Rightarrow> string" where
  "parent_dir p = rev (drop 1 (dropWhile (\<lambda>c. c \<noteq> CHR ''/'') (rev p)))"

text \<open>\<open>write_text\<close>: the parent directory is made, the file written. Writing succeeds.\<close>

definition write_text :: "string \<Rightarrow> string \<Rightarrow> unit io" where
  "write_text p s =
     (\<lambda>w. (Inr (), w\<lparr>files := (files w)(p \<mapsto> Text s),
                      dirs := insert (parent_dir p) (dirs w),
                      trace := trace w @ [FileWrite p s]\<rparr>))"

definition CONFIG_PATH :: string where "CONFIG_PATH = ''config.json''"
definition CONFIG_EXAMPLE_PATH :: string where "CONFIG_EXAMPLE_PATH = ''config.example.json''"
definition LITE_LOCK_PATH :: string where "LITE_LOCK_PATH = ''.lite_lock.json''"
definition TEMPLATES_DIR :: string where "TEMPLATES_DIR = ''templates''"
definition ASSETS_DIR :: string where "ASSETS_DIR = ''assets''"

section \<open>Config\<close>

record SiteConfig =
  title :: string
  description :: string
  base_url :: string

record GenConfig =
  model :: string
  temperature :: pyfloat
  max_tokens :: int

record AppConfig =
  site :: SiteConfig
  rss_url :: string
  generation :: GenConfig
  contact_email :: string

text \<open>The float \<open>0.7\<close>.\<close>

definition default_temperature :: pyfloat where
  "default_temperature = 0x3FE6666666666666"

text \<open>The list \<open>missing\<close> of \<open>load_config\<close>.\<close>

definition missing_fields :: "string \<Rightarrow> string \<Rightarrow> string \<Rightarrow> string \<Rightarrow> string \<Rightarrow> string list" where
  "missing_fields t d b r c =
     (if t = [] then [''site.title''] else []) @
     (if d = [] then [''site.description''] else []) @
     (if b = [] then [''site.base_url''] else []) @
     (if r = [] then [''rss_url''] else []) @
     (if c = [] then [''contact_email''] else [])"

text \<open>\<open>str(x or "").strip()\<close> for a value \<open>x\<close> of the document.\<close>

definition text_of :: "env \<Rightarrow> json \<Rightarrow> string" where
  "text_of e x = strip (py_str e (py_or x (JStr [])))"

text \<open>\<open>load_config\<close> from the parsed document on, in the order of the source.\<close>

definition config_of :: "env \<Rightarrow> json \<Rightarrow> error + AppConfig" where
  "config_of e cfg =
     bindE (py_get cfg ''site'') (\<lambda>site0.
     let site = py_or site0 (JObj []) in
     bindE (py_get site ''title'') (\<lambda>t0.
     let title = text_of e t0 in
     bindE (py_get site ''description'') (\<lambda>d0.
     let desc = text_of e d0 in
     bindE (py_get site ''base_url'') (\<lambda>b0.
     let base_url = rstrip_slash (text_of e b0) in
     bindE (py_get cfg ''rss_url'') (\<lambda>r0.
     let rss_url = text_of e r0 in
     bindE (py_get cfg ''generation'') (\<lambda>g0.
     let gen = py_or g0 (JObj []) in
     bindE (py_get gen ''model'') (\<lambda>m0.
     let model = strip (py_str e (py_or m0 (JStr ''deepseek-chat''))) in
     bindE (py_get gen ''temperature'') (\<lambda>te0.
     bindE (if te0 \<noteq> JNull then py_float e te0 else Inr default_temperature) (\<lambda>temperature.
     bindE (py_get gen ''max_tokens'') (\<lambda>mt0.
     bindE (if mt0 \<noteq> JNull then py_int e mt0 else Inr 2200) (\<lambda>max_tokens.
     bindE (py_get cfg ''contact_email'') (\<lambda>c0.
     let contact_email = text_of e c0;
         missing = missing_fields title desc base_url rss_url contact_email in
     if missing \<noteq> [] then
       Inl (Die (''Missing required config fields: '' @ join '', '' missing) 2)
     else if \<not> (startswith base_url ''http://'' \<or> startswith base_url ''https://'') then
       Inl (Die ''config.site.base_url must start with https:// (example: https://YOURNAME.github.io/YOURREPO)'' 2)
     else
       Inr \<lparr>site = \<lparr>title = title, description = desc, base_url = base_url\<rparr>,
            rss_url = rss_url,
            generation = \<lparr>model = model, temperature = temperature, max_tokens = max_tokens\<rparr>,
            contact_email = contact_email\<rparr>))))))))))))"

definition load_config :: "env \<Rightarrow> AppConfig io" where
  "load_config e =
     (\<lambda>w. if \<not> exists CONFIG_PATH w then die ''Copy config.example.json to config.json'' 2 w
          else seq (read_json e CONFIG_PATH) (\<lambda>cfg. lift (config_of e cfg)) w)"

section \<open>DeepSeek\<close>

function str_nat :: "nat \<Rightarrow> string" where
  "str_nat n =
     (if n < 10 then [char_of (48 + n)]
      else str_nat (n div 10) @ [char_of (48 + n mod 10)])"
  by pat_completeness auto
termination
  by (relation "measure id") auto

declare str_nat.simps [simp del]

text \<open>\<open>data["choices"][0]["message"]["content"]\<close>\<close>

definition message_content :: "json \<Rightarrow> json option" where
  "message_content data =
     Option.bind (py_item data ''choices'') (\<lambda>cs.
     Option.bind (py_first cs) (\<lambda>c.
     Option.bind (py_item c ''message'') (\<lambda>m. py_item m ''content'')))"

text \<open>
  The \<open>try\<close> block: \<open>(content or "").strip()\<close> raises for a true value that is no string,
  and every exception of the block ends in \<open>die\<close>.
\<close>

definition content_text :: "json \<Rightarrow> error + string" where
  "content_text data =
     (case message_content data of
        None \<Rightarrow> Inl (Die ''DeepSeek API response format unexpected.'' 3)
      | Some c \<Rightarrow>
          (case py_or c (JStr []) of
             JStr s \<Rightarrow> Inr (strip s)
           | _ \<Rightarrow> Inl (Die ''DeepSeek API response format unexpected.'' 3)))"

definition DEEPSEEK_URL :: string where
  "DEEPSEEK_URL = ''https://api.deepseek.com/v1/chat/completions''"

definition deepseek_chat :: "env \<Rightarrow> chat_request \<Rightarrow> string io" where
  "deepseek_chat e req =
     seq (emit (HttpPost DEEPSEEK_URL)) (\<lambda>_.
       case http_post e req of
         Inl exn \<Rightarrow> raise (Uncaught exn)
       | Inr (status_code, text) \<Rightarrow>
           if status_code \<noteq> 200 then
             die (''DeepSeek API error: HTTP '' @ str_nat status_code @ [CHR 0x0A] @ take 800 text) 3
           else
             (case json_loads e text of
                None \<Rightarrow> raise (Uncaught ''JSONDecodeError'')
              | Some data \<Rightarrow> lift (content_text data)))"

section \<open>RSS\<close>

text \<open>The dict that \<open>fetch_latest_item\<close> returns.\<close>

record item =
  item_title :: string
  item_link :: string
  item_summary :: string
  item_published :: string
  item_rss_url :: string
  raw_entry :: entry

text \<open>\<open>str(x or "").strip()\<close> for \<open>x = e.get(key)\<close>\<close>

definition field_text :: "string option \<Rightarrow> string" where
  "field_text x = strip (case x of None \<Rightarrow> [] | Some s \<Rightarrow> s)"

text \<open>\<open>str(x or y or "").strip()\<close>\<close>

definition field_text2 :: "string option \<Rightarrow> string option \<Rightarrow> string" where
  "field_text2 x y =
     strip (case x of
              Some (c # cs) \<Rightarrow> c # cs
            | _ \<Rightarrow> (case y of None \<Rightarrow> [] | Some s \<Rightarrow> s))"

definition fetch_latest_item :: "env \<Rightarrow> string \<Rightarrow> item io" where
  "fetch_latest_item e url =
     seq (emit (HttpGet url)) (\<lambda>_.
       case http_get e url of
         Inl exn \<Rightarrow> raise (Uncaught exn)
       | Inr (status_code, text) \<Rightarrow>
           if 400 \<le> status_code \<and> status_code < 600 then raise (Uncaught ''HTTPError'')
           else
             (case feedparser_parse e text of
                [] \<Rightarrow> die ''RSS has no entries.'' 4
              | en # _ \<Rightarrow>
                  (let title = field_text (entry_title en);
                       link = field_text (entry_link en);
                       summary = field_text2 (entry_summary en) (entry_description en);
                       published = field_text2 (entry_published en) (entry_updated en)
                   in if title = [] \<or> link = [] then die ''RSS entry is missing title/link.'' 4
                      else ret \<lparr>item_title = title, item_link = link, item_summary = summary,
                                item_published = published, item_rss_url = url,
                                raw_entry = en\<rparr>)))"

section \<open>Rendering\<close>

definition jinja_env :: "unit io" where
  "jinja_env =
     (\<lambda>w. if \<not> exists TEMPLATES_DIR w then die (''templates/ folder missing: '' @ TEMPLATES_DIR) 5 w
          else ret () w)"

text \<open>\<open>env.get_template(name)\<close>: the source of the template.\<close>

definition get_template :: "string \<Rightarrow> string io" where
  "get_template name =
     (\<lambda>w. case files w (TEMPLATES_DIR @ ''/'' @ name) of
            None \<Rightarrow> (Inl (Uncaught ''TemplateNotFound''), w)
          | Some _ \<Rightarrow> read_text (TEMPLATES_DIR @ ''/'' @ name) w)"

definition jinja :: "string + string \<Rightarrow> string io" where
  "jinja r = (case r of Inl exn \<Rightarrow> raise (Uncaught exn) | Inr html \<Rightarrow> ret html)"

definition build_robots :: "string \<Rightarrow> string" where
  "build_robots b =
     ''User-agent: *'' @ [CHR 0x0A] @ ''Allow: /'' @ [CHR 0x0A] @ [CHR 0x0A] @
     ''Sitemap: '' @ b @ ''/sitemap.xml'' @ [CHR 0x0A]"

definition url_item :: "string \<Rightarrow> string" where
  "url_item u = ''<url><loc>'' @ u @ ''</loc></url>''"

definition build_sitemap :: "string list \<Rightarrow> string" where
  \<open>build_sitemap urls =
     ''<?xml version="1.0" encoding="UTF-8"?>'' @ [CHR 0x0A] @
     ''<urlset xmlns="http://www.sitemaps.org/schemas/sitemap/0.9">'' @ [CHR 0x0A] @
     join [CHR 0x0A] (map url_item urls) @ [CHR 0x0A] @
     ''</urlset>'' @ [CHR 0x0A]\<close>

definition copy_assets :: "unit io" where
  "copy_assets =
     (\<lambda>w. if \<not> exists (ASSETS_DIR @ ''/style.css'') w then die ''assets/style.css missing.'' 5 w
          else
            seq (read_text (ASSETS_DIR @ ''/style.css'')) (\<lambda>css.
            seq (write_text (ASSETS_DIR @ ''/style.css'') css) (\<lambda>_ w'.
              if exists (ASSETS_DIR @ ''/app.js'') w' then
                seq (read_text (ASSETS_DIR @ ''/app.js'')) (\<lambda>js.
                  write_text (ASSETS_DIR @ ''/app.js'') js) w'
              else ret () w')) w)"

text \<open>\<open>safe_filename\<close>\<close>

definition safe_filename :: "env \<Rightarrow> string \<Rightarrow> string" where
  "safe_filename e s = (let t = take 80 (slugify e s) in if t = [] then ''post'' else t)"

definition render_site :: "env \<Rightarrow> AppConfig \<Rightarrow> item \<Rightarrow> string \<Rightarrow> (string \<times> string) io" where
  "render_site e cfg it body_html =
     seq jinja_env (\<lambda>_.
     let published_dt = (case published_parsed (raw_entry it) of Some t \<Rightarrow> t | None \<Rightarrow> now e);
         slug = safe_filename e (item_title it);
         post_rel = ''posts/'' @ slug @ ''.html'';
         post_url = base_url (site cfg) @ ''/'' @ post_rel;
         post = \<lparr>p_slug = slug, p_title = item_title it, p_source = item_link it,
                 p_url = item_link it, p_published = published_dt,
                 p_summary = strip_tags (item_summary it)\<rparr>
     in
     seq (get_template ''index.html'') (\<lambda>tpl_index.
     seq (jinja (render_index e tpl_index
            \<lparr>ix_site_title = title (site cfg), ix_site_description = description (site cfg),
             ix_base_url = base_url (site cfg), ix_generated_at = now e,
             ix_posts = [post]\<rparr>)) (\<lambda>index_html.
     seq (write_text ''index.html'' index_html) (\<lambda>_.
     seq (get_template ''post.html'') (\<lambda>tpl_post.
     seq (jinja (render_post e tpl_post
            \<lparr>pc_site_title = title (site cfg), pc_base_url = base_url (site cfg),
             pc_post = post, pc_body_html = body_html, pc_rss_url = item_rss_url it,
             pc_generated_utc = now_iso e, pc_contact_email = contact_email cfg\<rparr>)) (\<lambda>post_html.
     seq (write_text post_rel post_html) (\<lambda>_.
     seq (write_text ''robots.txt'' (build_robots (base_url (site cfg)))) (\<lambda>_.
     seq (write_text ''sitemap.xml''
            (build_sitemap [base_url (site cfg) @ ''/'', base_url (site cfg) @ ''/index.html'',
                            post_url])) (\<lambda>_.
     ret (post_rel, post_url))))))))))"

section \<open>Lite lock\<close>

definition LOCKED_MSG :: string where
  "LOCKED_MSG = ''LITE already ran once. This package is one-shot by design.''"

text \<open>
  \<open>check_lite_lock\<close>: whatever reading the marker raises is passed over, and \<open>data\<close> stays
  the empty dict.
\<close>

definition check_lite_lock :: "env \<Rightarrow> unit io" where
  "check_lite_lock e =
     (\<lambda>w. if exists LITE_LOCK_PATH w then
            (case read_json e LITE_LOCK_PATH w of
               (r, w') \<Rightarrow>
                 (let data = (case r of Inl _ \<Rightarrow> JObj [] | Inr j \<Rightarrow> j);
                      when = (case data of JObj kvs \<Rightarrow> member kvs ''created_utc'' | _ \<Rightarrow> JNull);
                      msg = LOCKED_MSG @
                            (if truthy when then '' (first run: '' @ py_str e when @ '')'' else [])
                  in seq (emit (Stdout msg)) (\<lambda>_. raise (SystemExit 0)) w'))
          else ret () w)"

definition LOCK_NOTE :: string where
  "LOCK_NOTE = ''Lite one-shot lock. Delete this file if you are the author and want to rerun locally.''"

definition write_lite_lock :: "env \<Rightarrow> string \<Rightarrow> unit io" where
  "write_lite_lock e post_url =
     write_text LITE_LOCK_PATH
       (json_dumps e (JObj [(''created_utc'', JStr (now_iso e)), (''post_url'', JStr post_url),
                            (''note'', JStr LOCK_NOTE)]) @ [CHR 0x0A])"

section \<open>Generation\<close>

definition FALLBACK :: string where
  "FALLBACK = ''<p><strong>Summary</strong>: Not stated in the source.</p>''"

text \<open>The call of \<open>deepseek_chat\<close>: the prompt carries the title, the link and the first 800
  characters of the stripped summary.\<close>

definition prompt_request :: "string \<Rightarrow> AppConfig \<Rightarrow> item \<Rightarrow> chat_request" where
  "prompt_request k cfg it =
     \<lparr>req_api_key = k, req_model = model (generation cfg),
      req_temperature = temperature (generation cfg),
      req_max_tokens = max_tokens (generation cfg),
      req_title = item_title it, req_link = item_link it,
      req_summary = take 800 (strip_tags (item_summary it))\<rparr>"

text \<open>\<open>(os.getenv("DEEPSEEK_API_KEY") or "").strip()\<close>\<close>

definition api_key :: "env \<Rightarrow> string" where
  "api_key e = strip (case getenv_api_key e of None \<Rightarrow> [] | Some k \<Rightarrow> k)"

definition generate_body_html :: "env \<Rightarrow> AppConfig \<Rightarrow> item \<Rightarrow> string io" where
  "generate_body_html e cfg it =
     (if api_key e = [] then die ''Missing DEEPSEEK_API_KEY (set it as a GitHub Actions secret).'' 2
      else
        seq (deepseek_chat e (prompt_request (api_key e) cfg it)) (\<lambda>out0.
          let out = sanitize out0 in
          ret (if out = [] then FALLBACK else out)))"

section \<open>Self test and main\<close>

definition selftest :: "unit io" where
  "selftest =
     (\<lambda>w. if \<not> exists CONFIG_EXAMPLE_PATH w then die ''config.example.json missing.'' 5 w
          else if \<not> exists (TEMPLATES_DIR @ ''/index.html'') w then
            die ''templates/index.html missing.'' 5 w
          else if \<not> exists (TEMPLATES_DIR @ ''/post.html'') w then
            die ''templates/post.html missing.'' 5 w
          else if \<not> exists (ASSETS_DIR @ ''/style.css'') w then
            die ''assets/style.css missing.'' 5 w
          else emit (Stdout ''SELFTEST OK'') w)"

text \<open>\<open>main\<close>, given whether \<open>--selftest\<close> was on the command line.\<close>

definition main :: "env \<Rightarrow> bool \<Rightarrow> unit io" where
  "main e args_selftest =
     (if args_selftest then selftest
      else
        seq (check_lite_lock e) (\<lambda>_.
        seq (load_config e) (\<lambda>cfg.
        seq (fetch_latest_item e (rss_url cfg)) (\<lambda>it.
        seq (generate_body_html e cfg it) (\<lambda>body_html.
        seq copy_assets (\<lambda>_.
        seq (render_site e cfg it body_html) (\<lambda>(post_rel, post_url).
        seq (write_lite_lock e post_url) (\<lambda>_.
        seq (emit (Stdout ''DONE'')) (\<lambda>_.
        emit (Stdout (''Post: '' @ post_url)))))))))))"

text \<open>The exit status of the process and the world it leaves.\<close>

definition run :: "env \<Rightarrow> bool \<Rightarrow> world \<Rightarrow> nat \<times> world" where
  "run e args_selftest w =
     (case main e args_selftest w of
        (Inl err, w') \<Rightarrow> (exit_status err, w')
      | (Inr _, w') \<Rightarrow> (0, w'))"

text \<open>The paths a trace wrote, in order.\<close>

fun written :: "event list \<Rightarrow> string list" where
  "written [] = []"
| "written (FileWrite p s # evs) = p # written evs"
| "written (_ # evs) = written evs"

section \<open>Notions of the claims\<close>

text \<open>
  The members of the section \<open>k\<close> of a configuration document (none when the section is
  absent or no object), the required fields by their dotted names, the value of such a
  field in a document, and a field that is missing or empty after trimming.
\<close>

definition section_of :: "json \<Rightarrow> string \<Rightarrow> (string \<times> json) list" where
  "section_of doc k =
     (case doc of
        JObj kvs \<Rightarrow> (case member kvs k of JObj sec \<Rightarrow> sec | _ \<Rightarrow> [])
      | _ \<Rightarrow> [])"

definition required_fields :: "string list" where
  "required_fields =
     [''site.title'', ''site.description'', ''site.base_url'', ''rss_url'', ''contact_email'']"

definition field_value :: "json \<Rightarrow> string \<Rightarrow> json" where
  "field_value doc f =
     (if f = ''site.title'' then member (section_of doc ''site'') ''title''
      else if f = ''site.description'' then member (section_of doc ''site'') ''description''
      else if f = ''site.base_url'' then member (section_of doc ''site'') ''base_url''
      else (case doc of JObj kvs \<Rightarrow> member kvs f | _ \<Rightarrow> JNull))"

definition field_blank :: "json \<Rightarrow> string \<Rightarrow> bool" where
  "field_blank doc f =
     (case field_value doc f of JNull \<Rightarrow> True | JStr s \<Rightarrow> strip s = [] | _ \<Rightarrow> False)"

text \<open>
  A document that \<open>load_config\<close> can read to its end: it is an object, its sections
  \<open>site\<close> and \<open>generation\<close> are objects (or absent, or a false value), and the
  \<open>temperature\<close> and \<open>max_tokens\<close> it gives convert to numbers.
\<close>

definition section_ok :: "json \<Rightarrow> bool" where
  "section_ok v = (case v of JObj _ \<Rightarrow> True | _ \<Rightarrow> \<not> truthy v)"

definition well_shaped :: "env \<Rightarrow> json \<Rightarrow> bool" where
  "well_shaped e doc =
     (case doc of
        JObj kvs \<Rightarrow>
          section_ok (member kvs ''site'') \<and> section_ok (member kvs ''generation'') \<and>
          (member (section_of doc ''generation'') ''temperature'' = JNull \<or>
             \<not> isl (py_float e (member (section_of doc ''generation'') ''temperature''))) \<and>
          (member (section_of doc ''generation'') ''max_tokens'' = JNull \<or>
             \<not> isl (py_int e (member (section_of doc ''generation'') ''max_tokens'')))
      | _ \<Rightarrow> False)"

text \<open>The two checks at the end of \<open>load_config\<close>, on the members \<open>kvs\<close> of the document.\<close>

definition config_rejects :: "env \<Rightarrow> (string \<times> json) list \<Rightarrow> bool" where
  "config_rejects e kvs =
     (let t = text_of e (member (section_of (JObj kvs) ''site'') ''title'');
          d = text_of e (member (section_of (JObj kvs) ''site'') ''description'');
          b = rstrip_slash (text_of e (member (section_of (JObj kvs) ''site'') ''base_url''));
          r = text_of e (member kvs ''rss_url'');
          c = text_of e (member kvs ''contact_email'')
      in missing_fields t d b r c \<noteq> [] \<or>
         \<not> (startswith b ''http://'' \<or> startswith b ''https://''))"

text \<open>
  What \<open>gen.get("model")\<close> finds in a document, and the document with its
  \<open>generation.model\<close> set to \<open>v\<close>.
\<close>

definition model_value :: "json \<Rightarrow> json" where
  "model_value doc = member (section_of doc ''generation'') ''model''"

definition with_model :: "json \<Rightarrow> json \<Rightarrow> json" where
  "with_model doc v =
     (case doc of
        JObj kvs \<Rightarrow>
          JObj ((''generation'', JObj ((''model'', v) # section_of doc ''generation'')) # kvs)
      | _ \<Rightarrow> doc)"

section \<open>A sample run\<close>

text \<open>
  The scenario of the specification: a configuration with the base URL
  \<open>https://ex.github.io/site\<close>, a feed with one entry, and a generation that answers with
  a paragraph and a script.
\<close>

definition demo_config_text :: string where
  \<open>demo_config_text = ''{"site": {"title": "Ex", "description": "A site", "base_url": "https://ex.github.io/site/"}, "rss_url": "https://src.example/feed", "contact_email": "me@ex.io"}''\<close>

definition demo_config :: json where
  "demo_config =
     JObj [(''site'', JObj [(''title'', JStr ''Ex''), (''description'', JStr ''A site''),
                          (''base_url'', JStr ''https://ex.github.io/site/'')]),
           (''rss_url'', JStr ''https://src.example/feed''),
           (''contact_email'', JStr ''me@ex.io'')]"

definition demo_reply_text :: string where
  \<open>demo_reply_text = ''{"choices": [{"message": {"content": "<p><strong>Summary</strong>: test</p><script>bad()</script>"}}]}''\<close>

definition demo_reply :: json where
  "demo_reply =
     JObj [(''choices'', JArr [JObj [(''message'',
        JObj [(''content'', JStr ''<p><strong>Summary</strong>: test</p><script>bad()</script>'')])]])]"

text \<open>Other configuration documents: one with most fields missing, one whose \<open>site\<close> is
  a string, one whose model is a blank.\<close>

definition partial_config_text :: string where
  \<open>partial_config_text = ''{"site": {"title": "Ex"}}''\<close>

definition partial_config :: json where
  "partial_config = JObj [(''site'', JObj [(''title'', JStr ''Ex'')])]"

definition site_string_text :: string where
  \<open>site_string_text = ''{"site": "My Blog"}''\<close>

definition site_string_config :: json where
  "site_string_config = JObj [(''site'', JStr ''My Blog'')]"

definition blank_model_text :: string where
  \<open>blank_model_text = ''{"site": {"title": "Ex", "description": "A site", "base_url": "https://ex.github.io/site/"}, "rss_url": "https://src.example/feed", "contact_email": "me@ex.io", "generation": {"model": " "}}''\<close>

definition blank_model_config :: json where
  "blank_model_config =
     JObj [(''site'', JObj [(''title'', JStr ''Ex''), (''description'', JStr ''A site''),
                          (''base_url'', JStr ''https://ex.github.io/site/'')]),
           (''rss_url'', JStr ''https://src.example/feed''),
           (''contact_email'', JStr ''me@ex.io''),
           (''generation'', JObj [(''model'', JStr '' '')])]"

definition demo_documents :: "(string \<times> json) list" where
  "demo_documents =
     [(demo_config_text, demo_config), (demo_reply_text, demo_reply),
      (partial_config_text, partial_config), (site_string_text, site_string_config),
      (blank_model_text, blank_model_config)]"

definition demo_entry :: entry where
  "demo_entry =
     \<lparr>entry_title = Some ''Hello World'', entry_link = Some ''https://src.example/a'',
      entry_summary = Some ''<p>abc</p>'', entry_description = None,
      entry_published = None, entry_updated = None, published_parsed = None\<rparr>"

definition demo_env :: env where
  "demo_env =
     \<lparr>str_other = (\<lambda>_. ''?''),
      float_other = (\<lambda>_. Inl ''ValueError''),
      int_other = (\<lambda>_. Inl ''ValueError''),
      json_loads = map_of demo_documents,
      json_dumps = (\<lambda>_. ''{}''),
      getenv_api_key = Some ''sk-test'',
      http_get = (\<lambda>_. Inr (200, ''<rss/>'')),
      http_post = (\<lambda>_. Inr (200, demo_reply_text)),
      feedparser_parse = (\<lambda>_. [demo_entry]),
      slugify = (\<lambda>_. ''hello-world''),
      render_index = (\<lambda>src ctx. Inr src),
      render_post = (\<lambda>src ctx. Inr (src @ pc_body_html ctx)),
      now = 0,
      now_iso = ''2024-01-01T00:00:00+00:00''\<rparr>"

definition demo_world :: world where
  "demo_world =
     \<lparr>files = map_of [(''config.json'', Text demo_config_text),
                       (''config.example.json'', Text demo_config_text),
                       (''templates/index.html'', Text ''<h1>index</h1>''),
                       (''templates/post.html'', Text ''<h1>post</h1>''),
                       (''assets/style.css'', Text ''body{}'')],
      dirs = {''templates'', ''assets''},
      trace = []\<rparr>"

text \<open>What \<open>load_config\<close> and \<open>fetch_latest_item\<close> give in the sample run, and a
  generation that answers with a script only.\<close>

definition demo_app_config :: AppConfig where
  "demo_app_config =
     \<lparr>site = \<lparr>title = ''Ex'', description = ''A site'', base_url = ''https://ex.github.io/site''\<rparr>,
      rss_url = ''https://src.example/feed'',
      generation = \<lparr>model = ''deepseek-chat'', temperature = default_temperature,
                     max_tokens = 2200\<rparr>,
      contact_email = ''me@ex.io''\<rparr>"

definition demo_item :: item where
  "demo_item =
     \<lparr>item_title = ''Hello World'', item_link = ''https://src.example/a'',
      item_summary = ''<p>abc</p>'', item_published = [],
      item_rss_url = ''https://src.example/feed'', raw_entry = demo_entry\<rparr>"

definition script_reply :: json where
  "script_reply =
     JObj [(''choices'', JArr [JObj [(''message'',
        JObj [(''content'', JStr ''<script>bad()</script>'')])]])]"

text \<open>The sample world with another text in \<open>config.json\<close>, and with a lock marker that
  cannot be read.\<close>

definition with_config :: "string \<Rightarrow> world" where
  "with_config txt = demo_world\<lparr>files := (files demo_world)(CONFIG_PATH \<mapsto> Text txt)\<rparr>"

definition locked_world :: world where
  "locked_world = demo_world\<lparr>files := (files demo_world)(LITE_LOCK_PATH \<mapsto> Unreadable)\<rparr>"

section \<open>Auxiliary notions\<close>

text \<open>No position of \<open>t\<close> starts a match of \<open>(?is)<[^>]+>\<close>.\<close>

fun tagfree :: "string \<Rightarrow> bool" where
  "tagfree [] = True"
| "tagfree (c # cs) = (match_markup (c # cs) = None \<and> tagfree cs)"



section \<open>The teaser has no tag\<close>

lemma find_gt_None_iff: "find_gt s = None \<longleftrightarrow> CHR ''>'' \<notin> set s"
  by (induction s) auto

lemma match_markup_None_iff:
  "match_markup s = None \<longleftrightarrow>
     (case s of c # d # ds \<Rightarrow> c \<noteq> CHR ''<'' \<or> d = CHR ''>'' \<or> CHR ''>'' \<notin> set ds | _ \<Rightarrow> True)"
  by (auto simp: match_markup_def find_gt_None_iff split: list.splits)

lemma tagfree_iff: "tagfree t \<longleftrightarrow> (\<forall>i. match_markup (drop i t) = None)"
proof (induction t)
  case Nil
  show ?case by (simp add: match_markup_def)
next
  case (Cons c cs)
  show ?case
  proof
    assume a: "tagfree (c # cs)"
    show "\<forall>i. match_markup (drop i (c # cs)) = None"
    proof
      fix i show "match_markup (drop i (c # cs)) = None"
        using a Cons by (cases i) auto
    qed
  next
    assume a: "\<forall>i. match_markup (drop i (c # cs)) = None"
    have "match_markup (drop 0 (c # cs)) = None" using a by blast
    moreover have "\<forall>i. match_markup (drop i cs) = None"
    proof
      fix i show "match_markup (drop i cs) = None" using a spec[OF a, of "Suc i"] by simp
    qed
    ultimately show "tagfree (c # cs)" using Cons by simp
  qed
qed

lemma gt_sub_markup: "CHR ''>'' \<in> set (sub_markup s) \<Longrightarrow> CHR ''>'' \<in> set s"
proof (induction s rule: sub_markup.induct)
  case 1
  then show ?case by simp
next
  case (2 c cs)
  show ?case
  proof (cases "match_markup (c # cs)")
    case None
    with 2 show ?thesis by auto
  next
    case (Some n)
    with 2 have "CHR ''>'' \<in> set (drop n (c # cs))" by auto
    then show ?thesis by (meson in_set_dropD)
  qed
qed

lemma match_markup_not_lt: "c \<noteq> CHR ''<'' \<Longrightarrow> match_markup (c # t) = None"
  by (simp add: match_markup_None_iff split: list.splits)

lemma match_markup_gt: "match_markup (c # CHR ''>'' # t) = None"
  by (simp add: match_markup_None_iff)

lemma sub_markup_head_gt: "sub_markup (CHR ''>'' # ds) = CHR ''>'' # sub_markup ds"
  by (simp add: match_markup_not_lt)

lemma tagfree_drop: "tagfree t \<Longrightarrow> tagfree (drop i t)"
  by (simp add: tagfree_iff)

lemma tagfree_sub_markup: "tagfree (sub_markup s)"
proof (induction s rule: sub_markup.induct)
  case 1
  show ?case by simp
next
  case (2 c cs)
  show ?case
  proof (cases "match_markup (c # cs)")
    case (Some n)
    with 2 show ?thesis by (simp add: match_markup_not_lt)
  next
    case None
    have tl: "tagfree (sub_markup cs)" using 2 None by simp
    have hd: "match_markup (c # sub_markup cs) = None"
    proof (cases cs)
      case Nil
      then show ?thesis by (simp add: match_markup_def)
    next
      case (Cons d ds)
      consider "c \<noteq> CHR ''<''" | "d = CHR ''>''" | "CHR ''>'' \<notin> set cs"
        using None Cons by (auto simp: match_markup_None_iff)
      then show ?thesis
      proof cases
        case 1
        then show ?thesis by (auto simp: match_markup_None_iff split: list.splits)
      next
        case 2
        then have "sub_markup cs = CHR ''>'' # sub_markup ds"
          using Cons sub_markup_head_gt by blast
        then show ?thesis by (simp only: match_markup_gt)
      next
        case 3
        then have "CHR ''>'' \<notin> set (sub_markup cs)" using gt_sub_markup by blast
        then show ?thesis by (auto simp: match_markup_None_iff split: list.splits)
      qed
    qed
    show ?thesis using None hd tl by simp
  qed
qed

lemma match_markup_append: "match_markup (u @ v) = None \<Longrightarrow> match_markup u = None"
  by (auto simp: match_markup_None_iff split: list.splits)

lemma tagfree_append_left: "tagfree (u @ v) \<Longrightarrow> tagfree u"
  by (induction u) (auto dest: match_markup_append[of "_ # _", simplified])

lemma tagfree_strip: "tagfree t \<Longrightarrow> tagfree (strip t)"
proof -
  assume a: "tagfree t"
  have "tagfree (lstrip t)"
    unfolding lstrip_def using a by (metis dropWhile_eq_drop tagfree_drop)
  moreover have "\<exists>v. lstrip t = rstrip (lstrip t) @ v" for t
    unfolding rstrip_def
    by (metis rev_append rev_rev_ident takeWhile_dropWhile_id)
  ultimately show ?thesis unfolding strip_def by (metis tagfree_append_left)
qed

lemma gt_collapse_ws: "CHR ''>'' \<in> set (collapse_ws s) \<Longrightarrow> CHR ''>'' \<in> set s"
proof (induction s rule: collapse_ws.induct)
  case 1
  then show ?case by simp
next
  case (2 c cs)
  then show ?case
    by (auto split: if_splits dest: set_dropWhileD)
qed

lemma not_space_gt: "\<not> is_space CHR ''>''"
  by (simp add: is_space_def)

lemma collapse_ws_head_gt: "collapse_ws (CHR ''>'' # ds) = CHR ''>'' # collapse_ws ds"
  by (simp add: not_space_gt)

lemma tagfree_collapse_ws: "tagfree t \<Longrightarrow> tagfree (collapse_ws t)"
proof (induction t rule: collapse_ws.induct)
  case 1
  show ?case by simp
next
  case (2 c cs)
  show ?case
  proof (cases "is_space c")
    case True
    have "tagfree (dropWhile is_space cs)"
      using "2.prems" by (metis dropWhile_eq_drop tagfree_drop tagfree.simps(2))
    then show ?thesis using True 2 by (simp add: match_markup_not_lt)
  next
    case False
    have tl: "tagfree (collapse_ws cs)" using 2 False by simp
    have hd: "match_markup (c # collapse_ws cs) = None"
    proof (cases cs)
      case Nil
      then show ?thesis by (simp add: match_markup_def)
    next
      case (Cons d ds)
      consider "c \<noteq> CHR ''<''" | "d = CHR ''>''" | "CHR ''>'' \<notin> set cs"
        using "2.prems" Cons by (auto simp: match_markup_None_iff)
      then show ?thesis
      proof cases
        case 1
        then show ?thesis by (auto simp: match_markup_None_iff split: list.splits)
      next
        case 2
        then have "collapse_ws cs = CHR ''>'' # collapse_ws ds"
          using Cons collapse_ws_head_gt by blast
        then show ?thesis by (simp only: match_markup_gt)
      next
        case 3
        then have "CHR ''>'' \<notin> set (collapse_ws cs)" using gt_collapse_ws by blast
        then show ?thesis by (auto simp: match_markup_None_iff split: list.splits)
      qed
    qed
    show ?thesis using False hd tl by simp
  qed
qed

text \<open>
  Claim C7, as the code has it. The teaser \<open>strip_tags summary\<close> holds no tag: at no
  position of it does the pattern \<open>(?is)<[^>]+>\<close> match, whatever the summary is. A lone
  angle bracket that is part of no tag stays in the teaser.
\<close>

theorem strip_tags_no_markup: "match_markup (drop i (strip_tags html)) = None"
proof -
  have "tagfree (strip_tags html)"
    unfolding strip_tags_def normalize_ws_def
    by (intro tagfree_collapse_ws tagfree_strip tagfree_sub_markup)
  then show ?thesis by (simp add: tagfree_iff)
qed

section \<open>The sanitizer only shortens\<close>























text \<open>
  Claim C7 as stated fails: an angle bracket that is part of no tag stays in the teaser.
\<close>

theorem strip_tags_keeps_bracket: "CHR ''<'' \<in> set (strip_tags ''1 < 2'')"
  by code_simp

section \<open>What the sanitizer lets through\<close>

text \<open>
  Claim C1 fails on the code. A tag spliced into the name of another is removed by the
  second pass, and what is left is a \<open>script\<close> element with its content, which the first
  pass has already passed over; and a tag that ends in \<open>/>\<close> right after its name is no
  match of the second pattern and stays, whatever its name.
\<close>

theorem sanitize_leaves_script:
  "sanitize ''<scr<b>ipt>alert(1)</scr<b>ipt>'' = ''<script>alert(1)</script>'' \<and>
   sanitize ''<div/>x'' = ''<div/>x''"
  by code_simp

section \<open>Sequencing\<close>

lemma seq_Inr:
  "seq m f w = (Inr y, w'') \<longleftrightarrow> (\<exists>x w'. m w = (Inr x, w') \<and> f x w' = (Inr y, w''))"
  by (auto simp: seq_def split: prod.splits sum.splits)


section \<open>Loading the configuration\<close>

lemma bindE_Inl: "bindE (Inl x) f = Inl x"
  by (simp add: bindE_def)

lemma bindE_Inr: "bindE (Inr x) f = f x"
  by (simp add: bindE_def)

lemma bindE_weak_cong: "r = r' \<Longrightarrow> bindE r f = bindE r' f"
  by simp

lemma py_get_JObj: "py_get (JObj kvs) k = Inr (member kvs k)"
  by (simp add: py_get_def)

lemma py_or_section: "section_ok v \<Longrightarrow> py_or v (JObj []) = JObj (case v of JObj py_or_section \<Rightarrow> py_or_section | _ \<Rightarrow> [])"
  by (cases v) (auto simp: section_ok_def py_or_def)

lemma text_of_blank: "(case v of JNull \<Rightarrow> True | JStr s \<Rightarrow> strip s = [] | _ \<Rightarrow> False) \<Longrightarrow> text_of e v = []"
  by (cases v) (auto simp: text_of_def py_or_def py_str_def strip_def rstrip_def lstrip_def)

lemma rstrip_slash_Nil: "rstrip_slash [] = []"
  by (simp add: rstrip_slash_def)

lemma isl_False_Inr: "\<not> isl r \<Longrightarrow> \<exists>x. r = Inr x"
  by (cases r) auto

lemma num_ok: "v = JNull \<or> \<not> isl (f v) \<Longrightarrow> \<exists>x. (if v \<noteq> JNull then f v else Inr d) = Inr x"
  by (cases "f v") auto

lemma config_of_shaped:
  assumes "well_shaped e (JObj kvs)"
  shows "\<exists>te mt. config_of e (JObj kvs) =
    (let t = text_of e (member (section_of (JObj kvs) ''site'') ''title'');
         d = text_of e (member (section_of (JObj kvs) ''site'') ''description'');
         b = rstrip_slash (text_of e (member (section_of (JObj kvs) ''site'') ''base_url''));
         r = text_of e (member kvs ''rss_url'');
         c = text_of e (member kvs ''contact_email'');
         missing = missing_fields t d b r c
     in if missing \<noteq> [] then
          Inl (Die (''Missing required config fields: '' @ join '', '' missing) 2)
        else if \<not> (startswith b ''http://'' \<or> startswith b ''https://'') then
          Inl (Die ''config.site.base_url must start with https:// (example: https://YOURNAME.github.io/YOURREPO)'' 2)
        else
          Inr \<lparr>site = \<lparr>title = t, description = d, base_url = b\<rparr>, rss_url = r,
               generation = \<lparr>model = strip (py_str e (py_or (member (section_of (JObj kvs) ''generation'') ''model'') (JStr ''deepseek-chat''))),
                  temperature = te, max_tokens = mt\<rparr>,
               contact_email = c\<rparr>)"
proof -
  let ?site = "section_of (JObj kvs) ''site''"
  let ?gen = "section_of (JObj kvs) ''generation''"
  have s: "py_or (member kvs ''site'') (JObj []) = JObj ?site"
    using assms by (simp add: well_shaped_def py_or_section section_of_def)
  have g: "py_or (member kvs ''generation'') (JObj []) = JObj ?gen"
    using assms by (simp add: well_shaped_def py_or_section section_of_def)
  obtain te where te: "(if member ?gen ''temperature'' \<noteq> JNull
      then py_float e (member ?gen ''temperature'') else Inr default_temperature) = Inr te"
    using assms num_ok[of "member ?gen ''temperature''" "py_float e"]
    unfolding well_shaped_def by auto
  obtain mt where mt: "(if member ?gen ''max_tokens'' \<noteq> JNull
      then py_int e (member ?gen ''max_tokens'') else Inr 2200) = Inr mt"
    using assms num_ok[of "member ?gen ''max_tokens''" "py_int e"]
    unfolding well_shaped_def by auto
  have "config_of e (JObj kvs) =
    (let t = text_of e (member ?site ''title'');
         d = text_of e (member ?site ''description'');
         b = rstrip_slash (text_of e (member ?site ''base_url''));
         r = text_of e (member kvs ''rss_url'');
         c = text_of e (member kvs ''contact_email'');
         missing = missing_fields t d b r c
     in if missing \<noteq> [] then
          Inl (Die (''Missing required config fields: '' @ join '', '' missing) 2)
        else if \<not> (startswith b ''http://'' \<or> startswith b ''https://'') then
          Inl (Die ''config.site.base_url must start with https:// (example: https://YOURNAME.github.io/YOURREPO)'' 2)
        else
          Inr \<lparr>site = \<lparr>title = t, description = d, base_url = b\<rparr>, rss_url = r,
               generation = \<lparr>model = strip (py_str e (py_or (member ?gen ''model'') (JStr ''deepseek-chat''))),
                  temperature = te, max_tokens = mt\<rparr>,
               contact_email = c\<rparr>)"
    unfolding config_of_def py_get_JObj bindE_Inr s g te mt Let_def ..
  then show ?thesis by blast
qed

lemma not_section_get:
  "\<not> section_ok v \<Longrightarrow> py_get (py_or v (JObj [])) k = Inl (Uncaught ''AttributeError'')"
  by (cases v) (simp_all add: section_ok_def py_or_def py_get_def)

lemma section_get:
  "section_ok v \<Longrightarrow>
     py_get (py_or v (JObj [])) k = Inr (member (case v of JObj py_or_section \<Rightarrow> py_or_section | _ \<Rightarrow> []) k)"
  by (simp add: py_or_section py_get_JObj)

lemma gen_section:
  "(case member kvs ''generation'' of JObj py_or_section \<Rightarrow> py_or_section | _ \<Rightarrow> []) = section_of (JObj kvs) ''generation''"
  by (simp add: section_of_def)

lemma config_fails_site:
  assumes "\<not> section_ok (member kvs ''site'')"
  shows "config_of e (JObj kvs) = Inl (Uncaught ''AttributeError'')"
  unfolding config_of_def Let_def
  apply (simp only: py_get_JObj bindE_Inr)
  apply (simp only: not_section_get [OF assms] bindE_Inl)
  done

lemma config_fails_generation:
  assumes s: "section_ok (member kvs ''site'')" and g: "\<not> section_ok (member kvs ''generation'')"
  shows "config_of e (JObj kvs) = Inl (Uncaught ''AttributeError'')"
  unfolding config_of_def Let_def
  apply (simp only: py_get_JObj bindE_Inr)
  apply (simp only: section_get [OF s] bindE_Inr)
  apply (simp only: not_section_get [OF g] bindE_Inl)
  done

lemma config_fails_temperature:
  assumes s: "section_ok (member kvs ''site'')" and g: "section_ok (member kvs ''generation'')"
    and x: "member (section_of (JObj kvs) ''generation'') ''temperature'' \<noteq> JNull"
      "py_float e (member (section_of (JObj kvs) ''generation'') ''temperature'') = Inl x"
  shows "config_of e (JObj kvs) = Inl x"
  unfolding config_of_def Let_def
  apply (simp only: py_get_JObj bindE_Inr)
  apply (simp only: section_get [OF s] bindE_Inr)
  apply (simp only: section_get [OF g] bindE_Inr gen_section)
  apply (simp only: x if_True bindE_Inl simp_thms)
  done

lemma config_fails_max_tokens:
  assumes s: "section_ok (member kvs ''site'')" and g: "section_ok (member kvs ''generation'')"
    and t: "(if member (section_of (JObj kvs) ''generation'') ''temperature'' \<noteq> JNull
      then py_float e (member (section_of (JObj kvs) ''generation'') ''temperature'')
      else Inr default_temperature) = Inr y"
    and x: "member (section_of (JObj kvs) ''generation'') ''max_tokens'' \<noteq> JNull"
      "py_int e (member (section_of (JObj kvs) ''generation'') ''max_tokens'') = Inl x"
  shows "config_of e (JObj kvs) = Inl x"
  unfolding config_of_def Let_def
  apply (simp only: py_get_JObj bindE_Inr)
  apply (simp only: section_get [OF s] bindE_Inr)
  apply (simp only: section_get [OF g] bindE_Inr gen_section)
  apply (simp only: t bindE_Inr)
  apply (simp only: x if_True bindE_Inl simp_thms)
  done

lemma config_of_not_object: "\<forall>kvs. doc \<noteq> JObj kvs \<Longrightarrow> config_of e doc = Inl (Uncaught ''AttributeError'')"
  unfolding config_of_def by (cases doc) (simp_all only: py_get_def json.case bindE_Inl simp_thms json.distinct json.inject)

lemma shaped_site: "config_of e (JObj kvs) = Inr cfg \<Longrightarrow> section_ok (member kvs ''site'')"
  using config_fails_site [of kvs e] by auto

lemma shaped_generation: "config_of e (JObj kvs) = Inr cfg \<Longrightarrow> section_ok (member kvs ''generation'')"
  using shaped_site [of e kvs cfg] config_fails_generation [of kvs e] by auto

lemma shaped_temperature:
  assumes ok: "config_of e (JObj kvs) = Inr cfg"
  shows "member (section_of (JObj kvs) ''generation'') ''temperature'' = JNull \<or>
         \<not> isl (py_float e (member (section_of (JObj kvs) ''generation'') ''temperature''))"
proof (rule ccontr)
  let ?gen = "section_of (JObj kvs) ''generation''"
  assume "\<not> ?thesis"
  then obtain x where "member ?gen ''temperature'' \<noteq> JNull"
    and "py_float e (member ?gen ''temperature'') = Inl x"
    by (cases "py_float e (member ?gen ''temperature'')") auto
  then have "config_of e (JObj kvs) = Inl x"
    using shaped_site [OF ok] shaped_generation [OF ok] config_fails_temperature by blast
  then show False using ok by simp
qed

lemma shaped_max_tokens:
  assumes ok: "config_of e (JObj kvs) = Inr cfg"
  shows "member (section_of (JObj kvs) ''generation'') ''max_tokens'' = JNull \<or>
         \<not> isl (py_int e (member (section_of (JObj kvs) ''generation'') ''max_tokens''))"
proof (rule ccontr)
  let ?gen = "section_of (JObj kvs) ''generation''"
  assume "\<not> ?thesis"
  then obtain x where x: "member ?gen ''max_tokens'' \<noteq> JNull"
    "py_int e (member ?gen ''max_tokens'') = Inl x"
    by (cases "py_int e (member ?gen ''max_tokens'')") auto
  obtain y where y: "(if member ?gen ''temperature'' \<noteq> JNull
      then py_float e (member ?gen ''temperature'') else Inr default_temperature) = Inr y"
    using shaped_temperature [OF ok] num_ok [of "member ?gen ''temperature''" "py_float e" default_temperature]
    by auto
  have "config_of e (JObj kvs) = Inl x"
    by (rule config_fails_max_tokens [OF shaped_site [OF ok] shaped_generation [OF ok] y x])
  then show False using ok by simp
qed

lemma config_of_Inr_shaped:
  assumes ok: "config_of e doc = Inr cfg"
  shows "well_shaped e doc"
proof (cases "\<exists>kvs. doc = JObj kvs")
  case True
  then obtain kvs where d: "doc = JObj kvs" by blast
  show ?thesis
    using shaped_site [of e kvs cfg] shaped_generation [of e kvs cfg] shaped_temperature [of e kvs cfg] shaped_max_tokens [of e kvs cfg] ok
    unfolding d well_shaped_def by simp
next
  case False
  then show ?thesis using ok config_of_not_object [of doc e] by simp
qed

lemma sublist_join: "x \<in> set xs \<Longrightarrow> sublist x (join sep xs)"
proof (induction sep xs rule: join.induct)
  case (3 sep a b bs)
  show ?case
  proof (cases "x = a")
    case True
    then show ?thesis by simp
  next
    case False
    then have "sublist x (join sep (b # bs))" using 3 by simp
    then show ?thesis by (simp add: sublist_append)
  qed
qed simp_all

lemma field_value_simps:
  "field_value doc ''site.title'' = member (section_of doc ''site'') ''title''"
  "field_value doc ''site.description'' = member (section_of doc ''site'') ''description''"
  "field_value doc ''site.base_url'' = member (section_of doc ''site'') ''base_url''"
  "field_value (JObj kvs) ''rss_url'' = member kvs ''rss_url''"
  "field_value (JObj kvs) ''contact_email'' = member kvs ''contact_email''"
  by (simp_all add: field_value_def)

lemma missing_fields_mem:
  "t = [] \<Longrightarrow> ''site.title'' \<in> set (missing_fields t d b r c)"
  "d = [] \<Longrightarrow> ''site.description'' \<in> set (missing_fields t d b r c)"
  "b = [] \<Longrightarrow> ''site.base_url'' \<in> set (missing_fields t d b r c)"
  "r = [] \<Longrightarrow> ''rss_url'' \<in> set (missing_fields t d b r c)"
  "c = [] \<Longrightarrow> ''contact_email'' \<in> set (missing_fields t d b r c)"
  by (simp_all add: missing_fields_def)

lemma blank_missing:
  assumes "g \<in> set required_fields" "field_blank (JObj kvs) g"
  shows "g \<in> set (missing_fields
    (text_of e (member (section_of (JObj kvs) ''site'') ''title''))
    (text_of e (member (section_of (JObj kvs) ''site'') ''description''))
    (rstrip_slash (text_of e (member (section_of (JObj kvs) ''site'') ''base_url'')))
    (text_of e (member kvs ''rss_url''))
    (text_of e (member kvs ''contact_email'')))"
proof -
  have b: "text_of e (field_value (JObj kvs) g) = []"
    using assms(2) unfolding field_blank_def by (rule text_of_blank)
  have "g = ''site.title'' \<or> g = ''site.description'' \<or> g = ''site.base_url''
    \<or> g = ''rss_url'' \<or> g = ''contact_email''"
    using assms(1) by (simp add: required_fields_def)
  then show ?thesis
  proof (elim disjE)
    assume 1: "g = ''site.title''"
    have "text_of e (member (section_of (JObj kvs) ''site'') ''title'') = []"
      using b unfolding 1 field_value_simps .
    then show ?thesis unfolding 1 by (rule missing_fields_mem)
  next
    assume 2: "g = ''site.description''"
    have "text_of e (member (section_of (JObj kvs) ''site'') ''description'') = []"
      using b unfolding 2 field_value_simps .
    then show ?thesis unfolding 2 by (rule missing_fields_mem)
  next
    assume 3: "g = ''site.base_url''"
    have "text_of e (member (section_of (JObj kvs) ''site'') ''base_url'') = []"
      using b unfolding 3 field_value_simps .
    then have "rstrip_slash (text_of e (member (section_of (JObj kvs) ''site'') ''base_url'')) = []"
      by (simp only: rstrip_slash_Nil)
    then show ?thesis unfolding 3 by (rule missing_fields_mem)
  next
    assume 4: "g = ''rss_url''"
    have "text_of e (member kvs ''rss_url'') = []"
      using b unfolding 4 field_value_simps .
    then show ?thesis unfolding 4 by (rule missing_fields_mem)
  next
    assume 5: "g = ''contact_email''"
    have "text_of e (member kvs ''contact_email'') = []"
      using b unfolding 5 field_value_simps .
    then show ?thesis unfolding 5 by (rule missing_fields_mem)
  qed
qed

lemma load_config_read:
  assumes "files w CONFIG_PATH = Some (Text s)" "json_loads e s = Some doc"
  shows "load_config e w = (config_of e doc, w\<lparr>trace := trace w @ [FileRead CONFIG_PATH]\<rparr>)"
  using assms
  by (simp add: load_config_def exists_def read_json_def read_text_def seq_def emit_def ret_def
        lift_def)

text \<open>
  Claim C5, as the code has it. Let \<open>config.json\<close> hold a document that \<open>load_config\<close> can
  read to its end (an object whose sections are objects, or absent, and whose
  \<open>temperature\<close> and \<open>max_tokens\<close> convert to numbers). If a required field is missing or
  empty after trimming, \<open>load_config\<close> dies with status 2 and one message, which starts with
  \<open>Missing required config fields:\<close> and names every required field that is missing or
  empty, not the first one only.
\<close>

theorem load_config_names_missing:
  assumes "files w CONFIG_PATH = Some (Text s)" and "json_loads e s = Some doc"
    and "well_shaped e doc" and "f \<in> set required_fields" and "field_blank doc f"
  shows "\<exists>msg. fst (load_config e w) = Inl (Die msg 2) \<and>
           prefix ''Missing required config fields: '' msg \<and>
           (\<forall>g\<in>set required_fields. field_blank doc g \<longrightarrow> sublist g msg)"
proof -
  obtain kvs where d: "doc = JObj kvs"
    using assms(3) by (cases doc) (simp_all add: well_shaped_def)
  let ?missing = "missing_fields
    (text_of e (member (section_of (JObj kvs) ''site'') ''title''))
    (text_of e (member (section_of (JObj kvs) ''site'') ''description''))
    (rstrip_slash (text_of e (member (section_of (JObj kvs) ''site'') ''base_url'')))
    (text_of e (member kvs ''rss_url''))
    (text_of e (member kvs ''contact_email''))"
  let ?msg = "''Missing required config fields: '' @ join '', '' ?missing"
  have "f \<in> set ?missing" using assms(4,5) d blank_missing by blast
  then have ne: "?missing \<noteq> []" by auto
  have "config_of e (JObj kvs) = Inl (Die ?msg 2)"
    using config_of_shaped [OF assms(3) [unfolded d]] ne by (auto simp: Let_def)
  then have 1: "fst (load_config e w) = Inl (Die ?msg 2)"
    using load_config_read [OF assms(1,2)] d by simp
  have 2: "\<forall>g\<in>set required_fields. field_blank doc g \<longrightarrow> sublist g ?msg"
  proof (intro ballI impI)
    fix g assume "g \<in> set required_fields" "field_blank doc g"
    then have "g \<in> set ?missing" using d blank_missing by blast
    then have "sublist g (join '', '' ?missing)" by (rule sublist_join)
    then show "sublist g ?msg" by (simp only: sublist_append) blast
  qed
  have 3: "prefix ''Missing required config fields: '' ?msg" by (rule prefixI) simp
  show ?thesis using 1 2 3 by blast
qed

lemma strip_default: "strip ''deepseek-chat'' = ''deepseek-chat''"
  by code_simp

lemma rstrip_slash_last: "rstrip_slash s \<noteq> [] \<Longrightarrow> last (rstrip_slash s) \<noteq> CHR ''/''"
proof -
  assume a: "rstrip_slash s \<noteq> []"
  then have ne: "dropWhile (\<lambda>c. c = CHR ''/'') (rev s) \<noteq> []"
    by (simp add: rstrip_slash_def)
  then have "hd (dropWhile (\<lambda>c. c = CHR ''/'') (rev s)) \<noteq> CHR ''/''"
    using hd_dropWhile [of "\<lambda>c. c = CHR ''/''" "rev s"] by simp
  then show ?thesis using ne by (simp add: rstrip_slash_def last_rev)
qed

lemma isl_config_shaped:
  assumes "well_shaped e (JObj kvs)"
  shows "isl (config_of e (JObj kvs)) = config_rejects e kvs"
proof -
  obtain te mt where c: "config_of e (JObj kvs) =
    (let t = text_of e (member (section_of (JObj kvs) ''site'') ''title'');
         d = text_of e (member (section_of (JObj kvs) ''site'') ''description'');
         b = rstrip_slash (text_of e (member (section_of (JObj kvs) ''site'') ''base_url''));
         r = text_of e (member kvs ''rss_url'');
         c = text_of e (member kvs ''contact_email'');
         missing = missing_fields t d b r c
     in if missing \<noteq> [] then
          Inl (Die (''Missing required config fields: '' @ join '', '' missing) 2)
        else if \<not> (startswith b ''http://'' \<or> startswith b ''https://'') then
          Inl (Die ''config.site.base_url must start with https:// (example: https://YOURNAME.github.io/YOURREPO)'' 2)
        else
          Inr \<lparr>site = \<lparr>title = t, description = d, base_url = b\<rparr>, rss_url = r,
               generation = \<lparr>model = strip (py_str e (py_or (member (section_of (JObj kvs) ''generation'') ''model'') (JStr ''deepseek-chat''))),
                  temperature = te, max_tokens = mt\<rparr>,
               contact_email = c\<rparr>)"
    using config_of_shaped [OF assms] by blast
  show ?thesis unfolding c config_rejects_def Let_def
    by (simp only: if_distrib [of isl] sum.disc if_bool_eq_disj simp_thms) blast
qed

lemma member_Cons: "member ((k, v) # kvs) k' = (if k = k' then v else member kvs k')"
  by (simp add: member_def)

lemma with_model_members:
  "member ((''generation'', x) # kvs) ''site'' = member kvs ''site''"
  "member ((''generation'', x) # kvs) ''rss_url'' = member kvs ''rss_url''"
  "member ((''generation'', x) # kvs) ''contact_email'' = member kvs ''contact_email''"
  "member ((''generation'', x) # kvs) ''generation'' = x"
  "member ((''model'', v) # g) ''temperature'' = member g ''temperature''"
  "member ((''model'', v) # g) ''max_tokens'' = member g ''max_tokens''"
  by (simp_all add: member_Cons)

lemma with_model_sections:
  "section_of (JObj ((''generation'', x) # kvs)) ''site'' = section_of (JObj kvs) ''site''"
  "section_of (JObj ((''generation'', JObj g) # kvs)) ''generation'' = g"
  by (simp_all add: section_of_def with_model_members)

lemma well_shaped_with_model:
  "well_shaped e (with_model (JObj kvs) v) = well_shaped e (with_model (JObj kvs) v')"
  unfolding with_model_def json.case well_shaped_def with_model_members with_model_sections
  by (simp only: section_ok_def json.case simp_thms)

lemma config_rejects_with_model:
  "config_rejects e ((''generation'', x) # kvs) = config_rejects e kvs"
  unfolding config_rejects_def with_model_members with_model_sections ..

lemma isl_not_Inr: "\<not> isl r \<Longrightarrow> \<exists>x. r = Inr x"
  by (cases r) auto

lemma isl_config_with_model:
  "isl (config_of e (with_model doc v)) = isl (config_of e (with_model doc v'))"
proof (cases "\<exists>kvs. doc = JObj kvs")
  case False
  then have "with_model doc v = doc" "with_model doc v' = doc"
    by (cases doc; simp add: with_model_def)+
  then show ?thesis by simp
next
  case True
  then obtain kvs where d: "doc = JObj kvs" by blast
  obtain x x' where w: "with_model doc v = JObj ((''generation'', x) # kvs)"
    "with_model doc v' = JObj ((''generation'', x') # kvs)"
    by (simp add: d with_model_def)
  show ?thesis
  proof (cases "well_shaped e (with_model doc v)")
    case True
    then have t': "well_shaped e (with_model doc v')"
      using well_shaped_with_model d by blast
    show ?thesis
      using isl_config_shaped [OF True [unfolded w]] isl_config_shaped [OF t' [unfolded w]]
      unfolding w config_rejects_with_model by simp
  next
    case False
    then have f': "\<not> well_shaped e (with_model doc v')"
      using well_shaped_with_model d by blast
    have "isl (config_of e (with_model doc v))"
      using False config_of_Inr_shaped isl_not_Inr by blast
    moreover have "isl (config_of e (with_model doc v'))"
      using f' config_of_Inr_shaped isl_not_Inr by blast
    ultimately show ?thesis by simp
  qed
qed

lemma missing_fields_Nil: "missing_fields t d b r c = [] \<Longrightarrow> b \<noteq> []"
  using missing_fields_mem(3) [of b t d r c] by auto

text \<open>
  Claim C10, as the code has it. When \<open>load_config\<close> succeeds, the model is
  \<open>deepseek-chat\<close> if \<open>generation.model\<close> is missing, null, empty or any other false value,
  and else the trimmed text of the value, so a model of blanks gives the empty string
  and not the default; and the base URL is not empty and does not end with \<open>/\<close>. Whether
  \<open>load_config\<close> fails does not depend on the value of \<open>generation.model\<close>.
\<close>

theorem config_model_and_base_url:
  "(config_of e doc = Inr cfg \<longrightarrow>
      model (generation cfg) =
        (if truthy (model_value doc) then strip (py_str e (model_value doc))
         else ''deepseek-chat'') \<and>
      base_url (site cfg) \<noteq> [] \<and> last (base_url (site cfg)) \<noteq> CHR ''/'') \<and>
   isl (config_of e (with_model doc v)) = isl (config_of e (with_model doc v'))"
proof (intro conjI impI)
  assume ok: "config_of e doc = Inr cfg"
  have ws: "well_shaped e doc" using ok by (rule config_of_Inr_shaped)
  then obtain kvs where d: "doc = JObj kvs"
    by (cases doc) (simp_all add: well_shaped_def)
  have nr: "\<not> config_rejects e kvs"
    using isl_config_shaped [OF ws [unfolded d]] ok d by simp
  let ?b = "rstrip_slash (text_of e (member (section_of (JObj kvs) ''site'') ''base_url''))"
  obtain te mt where c: "config_of e (JObj kvs) =
    (let t = text_of e (member (section_of (JObj kvs) ''site'') ''title'');
         d = text_of e (member (section_of (JObj kvs) ''site'') ''description'');
         b = rstrip_slash (text_of e (member (section_of (JObj kvs) ''site'') ''base_url''));
         r = text_of e (member kvs ''rss_url'');
         c = text_of e (member kvs ''contact_email'');
         missing = missing_fields t d b r c
     in if missing \<noteq> [] then
          Inl (Die (''Missing required config fields: '' @ join '', '' missing) 2)
        else if \<not> (startswith b ''http://'' \<or> startswith b ''https://'') then
          Inl (Die ''config.site.base_url must start with https:// (example: https://YOURNAME.github.io/YOURREPO)'' 2)
        else
          Inr \<lparr>site = \<lparr>title = t, description = d, base_url = b\<rparr>, rss_url = r,
               generation = \<lparr>model = strip (py_str e (py_or (member (section_of (JObj kvs) ''generation'') ''model'') (JStr ''deepseek-chat''))),
                  temperature = te, max_tokens = mt\<rparr>,
               contact_email = c\<rparr>)"
    using config_of_shaped [OF ws [unfolded d]] by blast
  have m: "missing_fields (text_of e (member (section_of (JObj kvs) ''site'') ''title''))
      (text_of e (member (section_of (JObj kvs) ''site'') ''description'')) ?b
      (text_of e (member kvs ''rss_url'')) (text_of e (member kvs ''contact_email'')) = []"
    and h: "startswith ?b ''http://'' \<or> startswith ?b ''https://''"
    using nr unfolding config_rejects_def Let_def by blast+
  have cfg: "cfg = \<lparr>site = \<lparr>title = text_of e (member (section_of (JObj kvs) ''site'') ''title''),
        description = text_of e (member (section_of (JObj kvs) ''site'') ''description''),
        base_url = ?b\<rparr>,
      rss_url = text_of e (member kvs ''rss_url''),
      generation = \<lparr>model = strip (py_str e (py_or (member (section_of (JObj kvs) ''generation'') ''model'') (JStr ''deepseek-chat''))),
        temperature = te, max_tokens = mt\<rparr>,
      contact_email = text_of e (member kvs ''contact_email'')\<rparr>"
    using ok [unfolded d c Let_def] m h by (simp only: simp_thms if_False sum.inject)
  have b: "?b \<noteq> []" using m by (rule missing_fields_Nil)
  show "model (generation cfg) =
        (if truthy (model_value doc) then strip (py_str e (model_value doc))
         else ''deepseek-chat'')"
    unfolding cfg d model_value_def
    by (simp add: py_or_def py_str_def strip_default)
  show "base_url (site cfg) \<noteq> []" unfolding cfg using b by simp
  show "last (base_url (site cfg)) \<noteq> CHR ''/''"
    unfolding cfg using rstrip_slash_last [OF b] by simp
next
  show "isl (config_of e (with_model doc v)) = isl (config_of e (with_model doc v'))"
    by (rule isl_config_with_model)
qed

theorem load_config_names_missing_witness:
  "files (with_config partial_config_text) CONFIG_PATH = Some (Text partial_config_text) \<and>
   json_loads demo_env partial_config_text = Some partial_config \<and>
   well_shaped demo_env partial_config \<and>
   ''rss_url'' \<in> set required_fields \<and>
   field_blank partial_config ''rss_url'' \<and>
   (\<exists>msg. fst (load_config demo_env (with_config partial_config_text)) = Inl (Die msg 2) \<and>
          sublist ''rss_url'' msg \<and> sublist ''site.base_url'' msg)"
proof -
  have 1: "files (with_config partial_config_text) CONFIG_PATH = Some (Text partial_config_text)"
    by (simp add: with_config_def)
  have 2: "json_loads demo_env partial_config_text = Some partial_config" by code_simp
  have 3: "well_shaped demo_env partial_config" by code_simp
  have 4: "''rss_url'' \<in> set required_fields" by code_simp
  have 5: "field_blank partial_config ''rss_url''" by code_simp
  have 6: "''site.base_url'' \<in> set required_fields" by code_simp
  have 7: "field_blank partial_config ''site.base_url''" by code_simp
  obtain msg where m: "fst (load_config demo_env (with_config partial_config_text)) = Inl (Die msg 2)"
    "\<forall>g\<in>set required_fields. field_blank partial_config g \<longrightarrow> sublist g msg"
    using load_config_names_missing [OF 1 2 3 4 5] by blast
  have "sublist ''rss_url'' msg" "sublist ''site.base_url'' msg"
    using m(2) 4 5 6 7 by blast+
  then show ?thesis using 1 2 3 4 5 m(1) by blast
qed

text \<open>
  Claim C5 as stated fails: a document whose \<open>site\<close> is a string lacks every required
  field, and \<open>load_config\<close> ends in an \<open>AttributeError\<close> that names none of them.
\<close>

theorem load_config_crashes_on_string_site:
  "field_blank site_string_config ''rss_url'' \<and>
   fst (load_config demo_env (with_config site_string_text)) = Inl (Uncaught ''AttributeError'')"
  by code_simp

theorem config_model_and_base_url_witness:
  "config_of demo_env demo_config =
     Inr \<lparr>site = \<lparr>title = ''Ex'', description = ''A site'', base_url = ''https://ex.github.io/site''\<rparr>,
          rss_url = ''https://src.example/feed'',
          generation = \<lparr>model = ''deepseek-chat'', temperature = default_temperature,
                         max_tokens = 2200\<rparr>,
          contact_email = ''me@ex.io''\<rparr> \<and>
   \<not> truthy (model_value demo_config) \<and>
   last ''https://ex.github.io/site'' \<noteq> CHR ''/''"
proof -
  have c: "config_of demo_env demo_config =
     Inr \<lparr>site = \<lparr>title = ''Ex'', description = ''A site'', base_url = ''https://ex.github.io/site''\<rparr>,
          rss_url = ''https://src.example/feed'',
          generation = \<lparr>model = ''deepseek-chat'', temperature = default_temperature,
                         max_tokens = 2200\<rparr>,
          contact_email = ''me@ex.io''\<rparr>"
    by code_simp
  have t: "\<not> truthy (model_value demo_config)" by code_simp
  from config_model_and_base_url [of demo_env demo_config _ JNull JNull] c
  have "last ''https://ex.github.io/site'' \<noteq> CHR ''/''" by simp
  then show ?thesis using c t by blast
qed

text \<open>
  Claim C10 as stated fails: a model of one blank is loaded as the empty string.
\<close>

theorem blank_model_is_not_defaulted:
  "config_of demo_env blank_model_config =
     Inr \<lparr>site = \<lparr>title = ''Ex'', description = ''A site'', base_url = ''https://ex.github.io/site''\<rparr>,
          rss_url = ''https://src.example/feed'',
          generation = \<lparr>model = [], temperature = default_temperature, max_tokens = 2200\<rparr>,
          contact_email = ''me@ex.io''\<rparr>"
  by code_simp

section \<open>The generated body\<close>

text \<open>
  Claim C8. \<open>generate_body_html\<close> returns exactly when the API key is set and
  \<open>deepseek_chat\<close> returns a text; what it returns is then the sanitized text, or the fixed
  fallback paragraph when the sanitized text is empty, and so it is never empty.
\<close>

theorem generate_body_html_nonempty:
  "(generate_body_html e cfg it w = (Inr out, w') \<longleftrightarrow>
      api_key e \<noteq> [] \<and>
      (\<exists>out0. deepseek_chat e (prompt_request (api_key e) cfg it) w = (Inr out0, w') \<and>
         out = (if sanitize out0 = [] then FALLBACK else sanitize out0))) \<and>
   (generate_body_html e cfg it w = (Inr out, w') \<longrightarrow> out \<noteq> [])"
proof -
  have 1: "generate_body_html e cfg it w = (Inr out, w') \<longleftrightarrow>
      api_key e \<noteq> [] \<and>
      (\<exists>out0. deepseek_chat e (prompt_request (api_key e) cfg it) w = (Inr out0, w') \<and>
         out = (if sanitize out0 = [] then FALLBACK else sanitize out0))"
    by (cases "api_key e = []")
       (auto simp: generate_body_html_def die_def raise_def seq_Inr ret_def Let_def)
  have "out \<noteq> []" if "out = (if sanitize out0 = [] then FALLBACK else sanitize out0)" for out0
    using that by (simp add: FALLBACK_def)
  then show ?thesis using 1 by blast
qed


lemma sanitize_script_only: "sanitize ''<script>bad()</script>'' = []"
  by code_simp

lemma content_text_script_reply: "content_text script_reply = Inr ''<script>bad()</script>''"
  by code_simp

lemma api_key_demo: "api_key (demo_env\<lparr>json_loads := \<lambda>_. Some script_reply\<rparr>) = ''sk-test''"
  by code_simp

lemma deepseek_chat_script_reply:
  "deepseek_chat (demo_env\<lparr>json_loads := \<lambda>_. Some script_reply\<rparr>) req demo_world
     = (Inr ''<script>bad()</script>'', demo_world\<lparr>trace := [HttpPost DEEPSEEK_URL]\<rparr>)"
  by (simp add: deepseek_chat_def seq_def emit_def demo_env_def lift_def
        content_text_script_reply demo_world_def)

theorem generate_body_html_nonempty_witness:
  "generate_body_html (demo_env\<lparr>json_loads := \<lambda>_. Some script_reply\<rparr>)
      demo_app_config demo_item demo_world
     = (Inr FALLBACK, demo_world\<lparr>trace := [HttpPost DEEPSEEK_URL]\<rparr>) \<and>
   FALLBACK \<noteq> []"
proof -
  let ?e = "demo_env\<lparr>json_loads := \<lambda>_. Some script_reply\<rparr>"
  let ?w = "demo_world\<lparr>trace := [HttpPost DEEPSEEK_URL]\<rparr>"
  have "api_key ?e \<noteq> [] \<and>
      (\<exists>out0. deepseek_chat ?e (prompt_request (api_key ?e) demo_app_config demo_item) demo_world
          = (Inr out0, ?w) \<and>
         FALLBACK = (if sanitize out0 = [] then FALLBACK else sanitize out0))"
    by (simp only: api_key_demo deepseek_chat_script_reply) (simp add: sanitize_script_only)
  then have h: "generate_body_html ?e demo_app_config demo_item demo_world = (Inr FALLBACK, ?w)"
    by (rule iffD2 [OF conjunct1 [OF generate_body_html_nonempty]])
  have ne: "FALLBACK \<noteq> []"
    by (rule mp [OF conjunct2 [OF generate_body_html_nonempty] h])
  show ?thesis by (rule conjI [OF h ne])
qed

section \<open>Reading the feed\<close>



end
